theory Spec2Isabelle
  imports Main "HOL-Library.Sublist"
begin

section \<open>Tags (internal/inventory/tag.go)\<close>

text \<open>
  A Go string is modelled as a \<^typ>\<open>string\<close>, one list element per character the
  regexp engine steps over. This is exact for ASCII keys, which is what the
  \<^verbatim>\<open>openshift-installer\<close> writes.
\<close>

record Tag =
  Key :: string
  Value :: string
  InstanceID :: string

definition NewTag :: "string \<Rightarrow> string \<Rightarrow> string \<Rightarrow> Tag" where
  "NewTag key val instanceID = \<lparr>Key = key, Value = val, InstanceID = instanceID\<rparr>"

definition unknownClusterNameCode :: string where
  "unknownClusterNameCode = ''UNKNOWN-CLUSTER''"

definition unknownClusterIDCode :: string where
  "unknownClusterIDCode = ''UNKNOWN-CLUSTER''"

subsection \<open>The part of Go's \<^verbatim>\<open>regexp\<close> and \<^verbatim>\<open>strings\<close> packages the file uses\<close>

text \<open>
  The three patterns of the file are concatenations of literal characters, \<^verbatim>\<open>.\<close>,
  \<^verbatim>\<open>.*\<close>, \<^verbatim>\<open>.*?\<close>, \<^verbatim>\<open>.{5}\<close>, one capture group and \<^verbatim>\<open>$\<close>. A pattern is the list
  of its items. Without flags, \<^verbatim>\<open>.\<close> is any character but the newline and \<^verbatim>\<open>$\<close> is
  the end of the text.
\<close>

datatype atom = Chr char | Dot

fun accepts :: "atom \<Rightarrow> char \<Rightarrow> bool" where
  "accepts (Chr c) x = (x = c)"
| "accepts Dot x = (x \<noteq> CHR 0x0A)"

datatype item =
    One atom     \<comment> \<open>one character\<close>
  | StarG atom   \<comment> \<open>\<^verbatim>\<open>a*\<close>, greedy\<close>
  | StarL atom   \<comment> \<open>\<^verbatim>\<open>a*?\<close>, lazy\<close>
  | Open         \<comment> \<open>\<^verbatim>\<open>(\<close> of group 1\<close>
  | Close        \<comment> \<open>\<^verbatim>\<open>)\<close> of group 1\<close>
  | Eot          \<comment> \<open>\<^verbatim>\<open>$\<close>\<close>

type_synonym regexp = "item list"

definition lit :: "string \<Rightarrow> regexp" where
  "lit s = map (\<lambda>c. One (Chr c)) s"

text \<open>
  \<^verbatim>\<open>regexp\<close> returns the leftmost match and, among the matches that start there, the one
  a backtracking search finds first. \<open>matchHere r s rec cap\<close> is that backtracking search
  for a match of \<open>r\<close> starting at the head of \<open>s\<close>; \<open>rec\<close> says the position is inside
  group 1 and \<open>cap\<close> is the text of group 1 so far. The result is the text of group 1.
\<close>

fun matchHere :: "regexp \<Rightarrow> string \<Rightarrow> bool \<Rightarrow> string \<Rightarrow> string option" where
  "matchHere [] s rec cap = Some cap"
| "matchHere (Open # r) s rec cap = matchHere r s True []"
| "matchHere (Close # r) s rec cap = matchHere r s False cap"
| "matchHere (Eot # r) s rec cap = (if s = [] then matchHere r s rec cap else None)"
| "matchHere (One a # r) [] rec cap = None"
| "matchHere (One a # r) (c # s) rec cap =
     (if accepts a c then matchHere r s rec (if rec then cap @ [c] else cap) else None)"
| "matchHere (StarL a # r) [] rec cap = matchHere r [] rec cap"
| "matchHere (StarL a # r) (c # s) rec cap =
     (case matchHere r (c # s) rec cap of
        Some g \<Rightarrow> Some g
      | None \<Rightarrow>
          if accepts a c then matchHere (StarL a # r) s rec (if rec then cap @ [c] else cap)
          else None)"
| "matchHere (StarG a # r) [] rec cap = matchHere r [] rec cap"
| "matchHere (StarG a # r) (c # s) rec cap =
     (if accepts a c then
        (case matchHere (StarG a # r) s rec (if rec then cap @ [c] else cap) of
           Some g \<Rightarrow> Some g
         | None \<Rightarrow> matchHere r (c # s) rec cap)
      else matchHere r (c # s) rec cap)"

text \<open>
  \<^verbatim>\<open>re.FindAllStringSubmatch(key, 1)\<close> followed by \<^verbatim>\<open>res[0][1]\<close>: the text of group 1 of
  the first match, \<open>None\<close> when \<^verbatim>\<open>len(res) <= 0\<close>.
\<close>

fun FindAllStringSubmatch :: "regexp \<Rightarrow> string \<Rightarrow> string option" where
  "FindAllStringSubmatch re [] = matchHere re [] False []"
| "FindAllStringSubmatch re (c # s) =
     (case matchHere re (c # s) False [] of
        Some g \<Rightarrow> Some g
      | None \<Rightarrow> FindAllStringSubmatch re s)"

text \<open>\<^verbatim>\<open>strings.HasPrefix\<close> and \<^verbatim>\<open>strings.Contains\<close>.\<close>

fun HasPrefix :: "string \<Rightarrow> string \<Rightarrow> bool" where
  "HasPrefix s [] = True"
| "HasPrefix [] (p # ps) = False"
| "HasPrefix (c # s) (p # ps) = (c = p \<and> HasPrefix s ps)"

fun Contains :: "string \<Rightarrow> string \<Rightarrow> bool" where
  "Contains [] substr = HasPrefix [] substr"
| "Contains (c # s) substr = (HasPrefix (c # s) substr \<or> Contains s substr)"

subsection \<open>The patterns\<close>

text \<open>\<^verbatim>\<open>"kubernetes.io/cluster/(.*?)-.{5}$"\<close>\<close>

definition clusterNameRegexp :: regexp where
  "clusterNameRegexp =
     lit ''kubernetes'' @ [One Dot] @ lit ''io/cluster/'' @
     [Open, StarL Dot, Close] @ lit ''-'' @ replicate 5 (One Dot) @ [Eot]"

text \<open>\<^verbatim>\<open>"kubernetes.io/cluster/.*-(.{5}?)$"\<close>; a lazy \<^verbatim>\<open>.{5}?\<close> still takes five characters.\<close>

definition infraIDRegexp :: regexp where
  "infraIDRegexp =
     lit ''kubernetes'' @ [One Dot] @ lit ''io/cluster/'' @
     [StarG Dot] @ lit ''-'' @ [Open] @ replicate 5 (One Dot) @ [Close, Eot]"

text \<open>\<^verbatim>\<open>"kubernetes.io/cluster/(.*)$"\<close>; declared in the file, used by no function.\<close>

definition clusterIDRegexp :: regexp where
  "clusterIDRegexp =
     lit ''kubernetes'' @ [One Dot] @ lit ''io/cluster/'' @ [Open, StarG Dot, Close, Eot]"

text \<open>
  The atoms of \<^verbatim>\<open>kubernetes.io/cluster/\<close>, with which the three patterns start. Used in
  the lemmas about the patterns only.
\<close>

definition keyPrefix :: "atom list" where
  "keyPrefix = map Chr ''kubernetes'' @ [Dot] @ map Chr ''io/cluster/''"

subsection \<open>The functions of tag.go\<close>

text \<open>
  \<^verbatim>\<open>var resultTag Tag\<close>: the zero value, which no statement of \<^verbatim>\<open>LookForTagByKey\<close>
  assigns to.
\<close>

definition resultTag :: Tag where
  "resultTag = \<lparr>Key = [], Value = [], InstanceID = []\<rparr>"

fun LookForTagByKey :: "string \<Rightarrow> Tag list \<Rightarrow> Tag option" where
  "LookForTagByKey key [] = None"
| "LookForTagByKey key (tag # tags) =
     (if Key tag = key then Some resultTag else LookForTagByKey key tags)"

definition parseClusterName :: "string \<Rightarrow> string" where
  "parseClusterName key =
     (case FindAllStringSubmatch clusterNameRegexp key of
        None \<Rightarrow> unknownClusterNameCode
      | Some g \<Rightarrow> g)"

definition parseClusterID :: "string \<Rightarrow> string" where
  "parseClusterID key =
     (case FindAllStringSubmatch clusterNameRegexp key of
        None \<Rightarrow> unknownClusterIDCode
      | Some g \<Rightarrow> g)"

definition parseInfraID :: "string \<Rightarrow> string" where
  "parseInfraID key =
     (case FindAllStringSubmatch infraIDRegexp key of
        None \<Rightarrow> []
      | Some g \<Rightarrow> g)"

definition GetOwnerFromTags :: "Tag list \<Rightarrow> string" where
  "GetOwnerFromTags tags =
     (case LookForTagByKey ''Owner'' tags of
        Some result \<Rightarrow> Key result
      | None \<Rightarrow> [])"

definition GetInstanceNameFromTags :: "Tag list \<Rightarrow> string" where
  "GetInstanceNameFromTags tags =
     (case LookForTagByKey ''Name'' tags of
        Some result \<Rightarrow> Key result
      | None \<Rightarrow> [])"

text \<open>
  \<^verbatim>\<open>ClusterTagKey\<close> is a constant of the package declared in another file; the three
  functions below take it as their first argument.
\<close>

fun GetClusterIDFromTags :: "string \<Rightarrow> Tag list \<Rightarrow> string" where
  "GetClusterIDFromTags ClusterTagKey [] = unknownClusterNameCode"
| "GetClusterIDFromTags ClusterTagKey (tag # tags) =
     (if Contains (Key tag) ClusterTagKey then parseClusterID (Key tag)
      else GetClusterIDFromTags ClusterTagKey tags)"

fun GetClusterNameFromTags :: "string \<Rightarrow> Tag list \<Rightarrow> string" where
  "GetClusterNameFromTags ClusterTagKey [] = unknownClusterNameCode"
| "GetClusterNameFromTags ClusterTagKey (tag # tags) =
     (if Contains (Key tag) ClusterTagKey then parseClusterName (Key tag)
      else GetClusterNameFromTags ClusterTagKey tags)"

fun GetInfraIDFromTags :: "string \<Rightarrow> Tag list \<Rightarrow> string" where
  "GetInfraIDFromTags ClusterTagKey [] = unknownClusterNameCode"
| "GetInfraIDFromTags ClusterTagKey (tag # tags) =
     (if Contains (Key tag) ClusterTagKey then parseInfraID (Key tag)
      else GetInfraIDFromTags ClusterTagKey tags)"

section \<open>The agent service (package main of the ClusterIQ Agent)\<close>

text \<open>
  Modelled from the spec: the provider kinds of \<^verbatim>\<open>inventory\<close>, which the source names
  \<^verbatim>\<open>inventory.AWSProvider\<close>, \<^verbatim>\<open>inventory.GCPProvider\<close> and \<^verbatim>\<open>inventory.AzureProvider\<close>
  ("enumerated: AWS, GCP, Azure, ..."). \<open>UnknownProvider\<close> stands for every value that
  none of the three cases of the \<^verbatim>\<open>switch\<close> matches.
\<close>

datatype CloudProvider = AWSProvider | GCPProvider | AzureProvider | UnknownProvider

text \<open>\<^verbatim>\<open>credentials.AccountConfig\<close>, with the four fields \<^verbatim>\<open>createExecutors\<close> reads.\<close>

record AccountConfig =
  Provider :: CloudProvider
  Name :: string
  User :: string
  Key_cred :: string

text \<open>
  Modelled from the spec: \<^verbatim>\<open>inventory.NewAccount(id, name, provider, user, key)\<close>, the
  account identity an executor is constructed from, as the tuple of its arguments.
\<close>

datatype Account = NewAccount string string CloudProvider string string

text \<open>
  A Go \<^verbatim>\<open>error\<close>: the value \<^verbatim>\<open>fmt.Errorf\<close> builds from a message, or the error that
  \<^verbatim>\<open>credentials.ReadCloudAccounts\<close> returned.
\<close>

datatype error = Errorf string | ReadCloudAccountsError string

text \<open>What the \<^verbatim>\<open>zap\<close> logger of the service received: level, message, fields.\<close>

datatype Level = InfoLevel | WarnLevel | ErrorLevel

datatype Field = String string string | Error error

type_synonym entry = "Level \<times> string \<times> Field list"

text \<open>
  \<^verbatim>\<open>AgentService\<close>: the executors map and the log written so far. A
  \<^verbatim>\<open>cexec.CloudExecutor\<close> is a value of the type \<open>'e\<close>, and \<open>None\<close> is the nil
  interface value. \<^verbatim>\<open>cfg\<close> only names the credentials file; what reading that file
  gives is an argument of \<open>createExecutors\<close>.
\<close>

record 'e AgentService =
  executors :: "string \<rightharpoonup> 'e"
  logger :: "entry list"

definition NewAgentService :: "'e AgentService" where
  "NewAgentService = \<lparr>executors = Map.empty, logger = []\<rparr>"

definition Info :: "string \<Rightarrow> Field list \<Rightarrow> 'e AgentService \<Rightarrow> 'e AgentService" where
  "Info msg fs a = a\<lparr>logger := logger a @ [(InfoLevel, msg, fs)]\<rparr>"

definition Warn :: "string \<Rightarrow> Field list \<Rightarrow> 'e AgentService \<Rightarrow> 'e AgentService" where
  "Warn msg fs a = a\<lparr>logger := logger a @ [(WarnLevel, msg, fs)]\<rparr>"

definition Error_log :: "string \<Rightarrow> Field list \<Rightarrow> 'e AgentService \<Rightarrow> 'e AgentService" where
  "Error_log msg fs a = a\<lparr>logger := logger a @ [(ErrorLevel, msg, fs)]\<rparr>"

text \<open>
  \<^verbatim>\<open>AddExecutor\<close>. \<open>GetAccountName\<close> is the method of the executor interface, an
  argument here. The result is the returned error (\<open>None\<close> for \<^verbatim>\<open>nil\<close>) and the
  service afterwards.
\<close>

definition AddExecutor ::
  "('e \<Rightarrow> string) \<Rightarrow> 'e option \<Rightarrow> 'e AgentService \<Rightarrow> error option \<times> 'e AgentService" where
  "AddExecutor GetAccountName exec a =
     (case exec of
        None \<Rightarrow> (Some (Errorf ''Cannot add a nil Executor''), a)
      | Some e \<Rightarrow> (None, a\<lparr>executors := (executors a)(GetAccountName e \<mapsto> e)\<rparr>))"

text \<open>
  \<^verbatim>\<open>readCloudProviderAccounts\<close>, applied to what \<^verbatim>\<open>credentials.ReadCloudAccounts\<close>
  returned for the credentials file.
\<close>

definition readCloudProviderAccounts ::
  "error + AccountConfig list \<Rightarrow> error + AccountConfig list" where
  "readCloudProviderAccounts ReadCloudAccounts =
     (case ReadCloudAccounts of
        Inl err \<Rightarrow> Inl err
      | Inr accounts \<Rightarrow> Inr accounts)"

text \<open>
  The \<^verbatim>\<open>for _, account := range accounts\<close> loop of \<^verbatim>\<open>createExecutors\<close>.
  \<open>NewAWSExecutor\<close> is the constructor of \<^verbatim>\<open>cexec\<close>, an argument here: the interface
  value handed to \<^verbatim>\<open>AddExecutor\<close>, \<open>None\<close> when that value is nil.
\<close>

fun createExecutors_loop ::
  "(Account \<Rightarrow> 'e option) \<Rightarrow> ('e \<Rightarrow> string) \<Rightarrow> AccountConfig list \<Rightarrow> 'e AgentService
     \<Rightarrow> error option \<times> 'e AgentService" where
  "createExecutors_loop NewAWSExecutor GetAccountName [] a = (None, a)"
| "createExecutors_loop NewAWSExecutor GetAccountName (account # accounts) a =
     (case Provider account of
        AWSProvider \<Rightarrow>
          (let a1 = Info ''Creating Executor for AWS account''
                      [String ''account_name'' (Name account)] a;
               exec = NewAWSExecutor
                        (NewAccount [] (Name account) (Provider account) (User account)
                           (Key_cred account))
           in case AddExecutor GetAccountName exec a1 of
                (Some err, a2) \<Rightarrow>
                  (Some err,
                   Error_log ''Cannot create an AWSEexecutor for account''
                     [String ''account_name'' (Name account), Error err] a2)
              | (None, a2) \<Rightarrow> createExecutors_loop NewAWSExecutor GetAccountName accounts a2)
      | GCPProvider \<Rightarrow>
          createExecutors_loop NewAWSExecutor GetAccountName accounts
            (Warn ''Failed to create Executor for GCP account''
               [String ''account'' (Name account), String ''reason'' ''not implemented''] a)
      | AzureProvider \<Rightarrow>
          createExecutors_loop NewAWSExecutor GetAccountName accounts
            (Warn ''Failed to create Executor for Azure account''
               [String ''account'' (Name account), String ''reason'' ''not implemented''] a)
      | UnknownProvider \<Rightarrow>
          createExecutors_loop NewAWSExecutor GetAccountName accounts a)"

definition createExecutors ::
  "(Account \<Rightarrow> 'e option) \<Rightarrow> ('e \<Rightarrow> string) \<Rightarrow> (error + AccountConfig list)
     \<Rightarrow> 'e AgentService \<Rightarrow> error option \<times> 'e AgentService" where
  "createExecutors NewAWSExecutor GetAccountName ReadCloudAccounts a =
     (case readCloudProviderAccounts ReadCloudAccounts of
        Inl err \<Rightarrow> (Some err, a)
      | Inr accounts \<Rightarrow> createExecutors_loop NewAWSExecutor GetAccountName accounts a)"

section \<open>What the matcher computes on the patterns of tag.go\<close>

text \<open>\<open>Contains\<close> is the contiguous-sublist relation of the library.\<close>

lemma HasPrefix_prefix: "HasPrefix s p = prefix p s"
  by (induction s p rule: HasPrefix.induct) auto

lemma Contains_sublist: "Contains s sub = sublist sub s"
  by (induction s) (auto simp: HasPrefix_prefix sublist_Cons_right)

lemma matchHere_Ones:
  "matchHere (map One as @ r) s rec cap =
     (if length as \<le> length s \<and> list_all2 accepts as (take (length as) s)
      then matchHere r (drop (length as) s) rec (if rec then cap @ take (length as) s else cap)
      else None)"
proof (induction as arbitrary: s cap)
  case Nil
  then show ?case by simp
next
  case (Cons a as)
  show ?case
  proof (cases s)
    case Nil
    then show ?thesis by simp
  next
    case (Cons c s')
    then show ?thesis using Cons.IH [of s'] by simp
  qed
qed

lemma list_all2_Dots:
  "list_all2 accepts (replicate n Dot) s = (length s = n \<and> CHR 0x0A \<notin> set s)"
proof (induction n arbitrary: s)
  case 0
  then show ?case by auto
next
  case (Suc n)
  then show ?case by (cases s) auto
qed

lemma tail_as_Ones:
  "lit ''-'' @ replicate 5 (One Dot) @ r = map One (Chr CHR ''-'' # replicate 5 Dot) @ r"
  by (simp add: lit_def)

lemma matchHere_tail:
  "matchHere (lit ''-'' @ replicate 5 (One Dot) @ Eot # r) s rec cap =
     (if length s = 6 \<and> CHR 0x0A \<notin> set s \<and> s ! 0 = CHR ''-''
      then matchHere r [] rec (if rec then cap @ s else cap) else None)"
proof (cases "length s = 6")
  case True
  then obtain c s' where s: "s = c # s'" and l: "length s' = 5"
    by (cases s) auto
  show ?thesis
    unfolding tail_as_Ones matchHere_Ones
    using l by (auto simp: s list_all2_Dots)
next
  case False
  show ?thesis
  proof (cases "6 \<le> length s")
    case True
    with False have "drop 6 s \<noteq> []" by simp
    with False show ?thesis
      unfolding tail_as_Ones matchHere_Ones by simp
  next
    case False
    then show ?thesis
      unfolding tail_as_Ones matchHere_Ones by simp
  qed
qed


lemma matchHere_lazy:
  "matchHere (StarL Dot # Close # lit ''-'' @ replicate 5 (One Dot) @ [Eot]) s True cap =
     (if 6 \<le> length s \<and> CHR 0x0A \<notin> set s \<and> s ! (length s - 6) = CHR ''-''
      then Some (cap @ take (length s - 6) s) else None)"
proof (induction s arbitrary: cap)
  case Nil
  then show ?case by (simp add: matchHere_tail)
next
  case (Cons c s)
  show ?case
  proof (cases "length s = 5")
    case True
    then show ?thesis
      using Cons.IH [of "cap @ [c]"] by (auto simp: matchHere_tail)
  next
    case False
    then have "(c # s) ! (length (c # s) - 6) = s ! (length s - 6)" if "6 \<le> length s"
      using that by (simp add: nth_Cons')
    moreover have "take (length s - 5) (c # s) = c # take (length s - 6) s" if "6 \<le> length s"
      using that by (simp add: take_Cons')
    ultimately show ?thesis
      using False Cons.IH [of "cap @ [c]"] by (auto simp: matchHere_tail Suc_diff_le)
  qed
qed

lemma matchHere_tail_group:
  "matchHere (lit ''-'' @ Open # replicate 5 (One Dot) @ [Close, Eot]) s rec cap =
     (if length s = 6 \<and> CHR 0x0A \<notin> set s \<and> s ! 0 = CHR ''-''
      then Some (tl s) else None)"
proof (cases s)
  case Nil
  then show ?thesis by (simp add: lit_def)
next
  case (Cons c s')
  have "matchHere (replicate 5 (One Dot) @ [Close, Eot]) s' True [] =
          (if length s' = 5 \<and> CHR 0x0A \<notin> set s' then Some s' else None)"
    using matchHere_Ones [of "replicate 5 Dot" "[Close, Eot]" s' True "[]"]
    by (auto simp: list_all2_Dots)
  then show ?thesis
    using Cons by (auto simp: lit_def)
qed

lemma matchHere_greedy:
  "matchHere (StarG Dot # lit ''-'' @ Open # replicate 5 (One Dot) @ [Close, Eot]) s False cap =
     (if 6 \<le> length s \<and> CHR 0x0A \<notin> set s \<and> s ! (length s - 6) = CHR ''-''
      then Some (drop (length s - 5) s) else None)"
proof (induction s)
  case Nil
  then show ?case by (simp add: matchHere_tail_group)
next
  case (Cons c s)
  show ?case
  proof (cases "length s = 5")
    case True
    then show ?thesis
      using Cons.IH by (auto simp: matchHere_tail_group)
  next
    case False
    then have "(c # s) ! (length (c # s) - 6) = s ! (length s - 6)" if "6 \<le> length s"
      using that by (simp add: nth_Cons')
    moreover have "drop (length s - 4) (c # s) = drop (length s - 5) s" if "6 \<le> length s"
      using that by (simp add: drop_Cons')
    ultimately show ?thesis
      using False Cons.IH by (auto simp: matchHere_tail_group Suc_diff_le)
  qed
qed


lemma length_keyPrefix: "length keyPrefix = 22"
  by (simp add: keyPrefix_def)

lemma clusterNameRegexp_keyPrefix:
  "clusterNameRegexp =
     map One keyPrefix @ Open # StarL Dot # Close # lit ''-'' @ replicate 5 (One Dot) @ [Eot]"
  by (simp add: clusterNameRegexp_def keyPrefix_def lit_def)

lemma infraIDRegexp_keyPrefix:
  "infraIDRegexp =
     map One keyPrefix @ StarG Dot # lit ''-'' @ Open # replicate 5 (One Dot) @ [Close, Eot]"
  by (simp add: infraIDRegexp_def keyPrefix_def lit_def)

lemma matchHere_clusterNameRegexp:
  "matchHere clusterNameRegexp s False [] =
     (if 22 \<le> length s \<and> list_all2 accepts keyPrefix (take 22 s) \<and>
         6 \<le> length (drop 22 s) \<and> CHR 0x0A \<notin> set (drop 22 s) \<and>
         drop 22 s ! (length (drop 22 s) - 6) = CHR ''-''
      then Some (take (length (drop 22 s) - 6) (drop 22 s)) else None)"
proof -
  have "matchHere clusterNameRegexp s False [] =
          (if 22 \<le> length s \<and> list_all2 accepts keyPrefix (take 22 s)
           then matchHere (StarL Dot # Close # lit ''-'' @ replicate 5 (One Dot) @ [Eot])
                  (drop 22 s) True []
           else None)"
    unfolding clusterNameRegexp_keyPrefix matchHere_Ones length_keyPrefix by simp
  then show ?thesis
    unfolding matchHere_lazy by auto
qed

lemma matchHere_infraIDRegexp:
  "matchHere infraIDRegexp s False [] =
     (if 22 \<le> length s \<and> list_all2 accepts keyPrefix (take 22 s) \<and>
         6 \<le> length (drop 22 s) \<and> CHR 0x0A \<notin> set (drop 22 s) \<and>
         drop 22 s ! (length (drop 22 s) - 6) = CHR ''-''
      then Some (drop (length (drop 22 s) - 5) (drop 22 s)) else None)"
proof -
  have "matchHere infraIDRegexp s False [] =
          (if 22 \<le> length s \<and> list_all2 accepts keyPrefix (take 22 s)
           then matchHere
                  (StarG Dot # lit ''-'' @ Open # replicate 5 (One Dot) @ [Close, Eot])
                  (drop 22 s) False []
           else None)"
    unfolding infraIDRegexp_keyPrefix matchHere_Ones length_keyPrefix by simp
  then show ?thesis
    unfolding matchHere_greedy by auto
qed

lemma matchHere_same_keys:
  "(matchHere clusterNameRegexp s False [] = None) = (matchHere infraIDRegexp s False [] = None)"
  by (simp only: matchHere_clusterNameRegexp matchHere_infraIDRegexp split: if_splits) simp

lemma FindAllStringSubmatch_same_keys:
  "(FindAllStringSubmatch clusterNameRegexp s = None) =
   (FindAllStringSubmatch infraIDRegexp s = None)"
proof (induction s)
  case Nil
  then show ?case by (simp add: matchHere_same_keys)
next
  case (Cons c s)
  then show ?case
    using matchHere_same_keys [of "c # s"] by (auto split: option.splits)
qed

lemma accepts_keyPrefix: "list_all2 accepts keyPrefix ''kubernetes.io/cluster/''"
  by (simp add: keyPrefix_def)

lemma FindAllStringSubmatch_shape:
  assumes "CHR 0x0A \<notin> set name" and "CHR 0x0A \<notin> set suf" and "length suf = 5"
  shows "FindAllStringSubmatch clusterNameRegexp
           (''kubernetes.io/cluster/'' @ name @ ''-'' @ suf) = Some name"
    and "FindAllStringSubmatch infraIDRegexp
           (''kubernetes.io/cluster/'' @ name @ ''-'' @ suf) = Some suf"
proof -
  let ?key = "''kubernetes.io/cluster/'' @ name @ ''-'' @ suf"
  have d: "drop 22 ?key = name @ ''-'' @ suf" and t: "take 22 ?key = ''kubernetes.io/cluster/''"
    by simp_all
  have n: "(name @ ''-'' @ suf) ! (length (name @ ''-'' @ suf) - 6) = CHR ''-''"
    using assms(3) by (simp add: nth_append)
  have c: "?key = CHR ''k'' # tl ?key" by simp
  have "matchHere clusterNameRegexp ?key False [] = Some name"
    unfolding matchHere_clusterNameRegexp d t using assms n accepts_keyPrefix by simp
  then show "FindAllStringSubmatch clusterNameRegexp ?key = Some name"
    by (subst c, simp only: FindAllStringSubmatch.simps, subst c [symmetric], simp)
  have "matchHere infraIDRegexp ?key False [] = Some suf"
    unfolding matchHere_infraIDRegexp d t using assms n accepts_keyPrefix by simp
  then show "FindAllStringSubmatch infraIDRegexp ?key = Some suf"
    by (subst c, simp only: FindAllStringSubmatch.simps, subst c [symmetric], simp)
qed

section \<open>Tag resolution\<close>

text \<open>
  Each of the three scans applies its parser to the key of the first tag whose key
  contains the marker, and returns \<open>unknownClusterNameCode\<close> when there is none.
\<close>

lemma GetClusterNameFromTags_find:
  "GetClusterNameFromTags m tags =
     (case find (\<lambda>t. Contains (Key t) m) tags of
        None \<Rightarrow> unknownClusterNameCode
      | Some t \<Rightarrow> parseClusterName (Key t))"
  by (induction tags) simp_all

lemma GetClusterIDFromTags_find:
  "GetClusterIDFromTags m tags =
     (case find (\<lambda>t. Contains (Key t) m) tags of
        None \<Rightarrow> unknownClusterNameCode
      | Some t \<Rightarrow> parseClusterID (Key t))"
  by (induction tags) simp_all

lemma GetInfraIDFromTags_find:
  "GetInfraIDFromTags m tags =
     (case find (\<lambda>t. Contains (Key t) m) tags of
        None \<Rightarrow> unknownClusterNameCode
      | Some t \<Rightarrow> parseInfraID (Key t))"
  by (induction tags) simp_all

lemma find_no_marker:
  "(\<forall>t\<in>set tags. \<not> Contains (Key t) m) \<Longrightarrow> find (\<lambda>t. Contains (Key t) m) tags = None"
  by (simp add: find_None_iff)

lemma LookForTagByKey_None: "(LookForTagByKey key tags = None) = (\<forall>t\<in>set tags. Key t \<noteq> key)"
  by (induction tags) simp_all

lemma LookForTagByKey_Some:
  "LookForTagByKey key tags = Some r \<Longrightarrow> r = resultTag"
  by (induction tags) (simp_all split: if_splits)

lemma GetOwnerFromTags_empty: "GetOwnerFromTags tags = []"
  by (auto simp: GetOwnerFromTags_def resultTag_def split: option.splits
      dest: LookForTagByKey_Some)

lemma GetInstanceNameFromTags_empty: "GetInstanceNameFromTags tags = []"
  by (auto simp: GetInstanceNameFromTags_def resultTag_def split: option.splits
      dest: LookForTagByKey_Some)

text \<open>
  C1 (the code at the claim's own example). The claim says that, for a first marker tag
  with key \<^verbatim>\<open>kubernetes.io/cluster/mycluster-ab12c\<close>, \<^verbatim>\<open>GetClusterIDFromTags\<close> returns the
  trailing five characters \<^verbatim>\<open>ab12c\<close>, through a pattern of its own. \<^verbatim>\<open>parseClusterID\<close>
  compiles \<^verbatim>\<open>clusterNameRegexp\<close>, so the function returns the cluster name \<^verbatim>\<open>mycluster\<close>.
\<close>
theorem GetClusterIDFromTags_returns_name:
  "GetClusterIDFromTags ''kubernetes.io/cluster/''
     [\<lparr>Key = ''kubernetes.io/cluster/mycluster-ab12c'', Value = ''owned'',
       InstanceID = ''i-0abc''\<rparr>] = ''mycluster'' \<and>
   GetClusterIDFromTags ''kubernetes.io/cluster/''
     [\<lparr>Key = ''kubernetes.io/cluster/mycluster-ab12c'', Value = ''owned'',
       InstanceID = ''i-0abc''\<rparr>] \<noteq> ''ab12c''"
  using FindAllStringSubmatch_shape(1) [of "''mycluster''" "''ab12c''"]
  by (simp add: parseClusterID_def)

text \<open>
  C2 (the code at a tag list that has the key). The claim says that \<^verbatim>\<open>GetOwnerFromTags\<close>
  returns the value of the first tag with key \<^verbatim>\<open>Owner\<close>, and \<^verbatim>\<open>GetInstanceNameFromTags\<close>
  that of the first tag with key \<^verbatim>\<open>Name\<close>. Both read the \<^verbatim>\<open>Key\<close> field of the zero-valued
  tag that \<^verbatim>\<open>LookForTagByKey\<close> returns, and so return the empty string.
\<close>
theorem GetOwnerFromTags_ignores_value:
  "GetOwnerFromTags [\<lparr>Key = ''Owner'', Value = ''alice'', InstanceID = ''i-0abc''\<rparr>] = [] \<and>
   GetInstanceNameFromTags [\<lparr>Key = ''Name'', Value = ''web-1'', InstanceID = ''i-0abc''\<rparr>] = []"
  by (simp add: GetOwnerFromTags_def GetInstanceNameFromTags_def resultTag_def)

text \<open>
  C10. For every search key and tag list, \<^verbatim>\<open>LookForTagByKey\<close> returns nil if and only if
  no tag of the list has that key; when a tag has the key, the result points to a
  zero-valued tag (all three fields empty), whatever the matching tag holds.
\<close>
theorem LookForTagByKey_zero_tag:
  "(LookForTagByKey key tags = None) = (\<forall>t\<in>set tags. Key t \<noteq> key) \<and>
   ((\<exists>t\<in>set tags. Key t = key) \<longrightarrow>
      LookForTagByKey key tags = Some \<lparr>Key = [], Value = [], InstanceID = []\<rparr>)"
proof -
  have "LookForTagByKey key tags = Some resultTag" if "\<exists>t\<in>set tags. Key t = key"
  proof (cases "LookForTagByKey key tags")
    case None
    with that show ?thesis by (simp add: LookForTagByKey_None)
  next
    case (Some r)
    then show ?thesis by (simp add: LookForTagByKey_Some)
  qed
  then show ?thesis
    by (simp add: LookForTagByKey_None resultTag_def)
qed

theorem LookForTagByKey_zero_tag_witness:
  "LookForTagByKey ''Owner''
     [\<lparr>Key = ''Name'', Value = ''web-1'', InstanceID = ''i-0abc''\<rparr>,
      \<lparr>Key = ''Owner'', Value = ''alice'', InstanceID = ''i-0abc''\<rparr>] =
     Some \<lparr>Key = [], Value = [], InstanceID = []\<rparr> \<and>
   LookForTagByKey ''Owner'' [\<lparr>Key = ''Name'', Value = ''web-1'', InstanceID = ''i-0abc''\<rparr>] = None"
  using LookForTagByKey_zero_tag [of "''Owner''"
      "[\<lparr>Key = ''Name'', Value = ''web-1'', InstanceID = ''i-0abc''\<rparr>,
        \<lparr>Key = ''Owner'', Value = ''alice'', InstanceID = ''i-0abc''\<rparr>]"]
    LookForTagByKey_zero_tag [of "''Owner''"
      "[\<lparr>Key = ''Name'', Value = ''web-1'', InstanceID = ''i-0abc''\<rparr>]"]
  by simp

text \<open>
  C3. The claim says that, for a tag list in which no key contains the cluster tag marker,
  \<^verbatim>\<open>GetClusterNameFromTags\<close> and \<^verbatim>\<open>GetClusterIDFromTags\<close> return \<^verbatim>\<open>UNKNOWN-CLUSTER\<close> and
  \<^verbatim>\<open>GetInfraIDFromTags\<close> returns the empty string. The third part fails: the list with
  the single tag \<^verbatim>\<open>Name\<close> has no marker, and \<^verbatim>\<open>GetInfraIDFromTags\<close> returns the sentinel.
\<close>
theorem GetInfraIDFromTags_no_marker_counterexample:
  "\<not> Contains ''Name'' ''kubernetes.io/cluster/'' \<and>
   GetInfraIDFromTags ''kubernetes.io/cluster/''
     [\<lparr>Key = ''Name'', Value = ''web-1'', InstanceID = ''i-0abc''\<rparr>] = ''UNKNOWN-CLUSTER'' \<and>
   GetInfraIDFromTags ''kubernetes.io/cluster/''
     [\<lparr>Key = ''Name'', Value = ''web-1'', InstanceID = ''i-0abc''\<rparr>] \<noteq> []"
  by (simp add: unknownClusterNameCode_def)

text \<open>
  C3, as amended: for every tag list in which no key contains the cluster tag marker,
  all three of \<^verbatim>\<open>GetClusterNameFromTags\<close>, \<^verbatim>\<open>GetClusterIDFromTags\<close> and
  \<^verbatim>\<open>GetInfraIDFromTags\<close> return the sentinel \<^verbatim>\<open>UNKNOWN-CLUSTER\<close>.
\<close>

theorem no_marker_sentinel:
  assumes "\<forall>t\<in>set tags. \<not> Contains (Key t) ClusterTagKey"
  shows "GetClusterNameFromTags ClusterTagKey tags = ''UNKNOWN-CLUSTER'' \<and>
         GetClusterIDFromTags ClusterTagKey tags = ''UNKNOWN-CLUSTER'' \<and>
         GetInfraIDFromTags ClusterTagKey tags = ''UNKNOWN-CLUSTER''"
  using find_no_marker [OF assms]
  by (simp add: GetClusterNameFromTags_find GetClusterIDFromTags_find GetInfraIDFromTags_find
      unknownClusterNameCode_def)

theorem no_marker_sentinel_witness:
  "\<not> Contains ''Name'' ''kubernetes.io/cluster/'' \<and>
   \<not> Contains ''Owner'' ''kubernetes.io/cluster/'' \<and>
   GetClusterNameFromTags ''kubernetes.io/cluster/''
     [\<lparr>Key = ''Name'', Value = ''web-1'', InstanceID = ''i-0abc''\<rparr>,
      \<lparr>Key = ''Owner'', Value = ''alice'', InstanceID = ''i-0abc''\<rparr>] = ''UNKNOWN-CLUSTER'' \<and>
   GetClusterIDFromTags ''kubernetes.io/cluster/''
     [\<lparr>Key = ''Name'', Value = ''web-1'', InstanceID = ''i-0abc''\<rparr>,
      \<lparr>Key = ''Owner'', Value = ''alice'', InstanceID = ''i-0abc''\<rparr>] = ''UNKNOWN-CLUSTER'' \<and>
   GetInfraIDFromTags ''kubernetes.io/cluster/''
     [\<lparr>Key = ''Name'', Value = ''web-1'', InstanceID = ''i-0abc''\<rparr>,
      \<lparr>Key = ''Owner'', Value = ''alice'', InstanceID = ''i-0abc''\<rparr>] = ''UNKNOWN-CLUSTER''"
proof -
  have h: "\<forall>t\<in>set [\<lparr>Key = ''Name'', Value = ''web-1'', InstanceID = ''i-0abc''\<rparr>,
              \<lparr>Key = ''Owner'', Value = ''alice'', InstanceID = ''i-0abc''\<rparr>].
      \<not> Contains (Key t) ''kubernetes.io/cluster/''"
    by simp
  show ?thesis
    using h no_marker_sentinel [OF h] by simp
qed

text \<open>
  C4. For every tag list whose first tag with the marker in its key has the key
  \<^verbatim>\<open>kubernetes.io/cluster/mycluster-ab12c\<close>, \<^verbatim>\<open>GetClusterNameFromTags\<close> returns
  \<^verbatim>\<open>mycluster\<close> and \<^verbatim>\<open>GetInfraIDFromTags\<close> returns \<^verbatim>\<open>ab12c\<close>.
\<close>
theorem mycluster_round_trip:
  assumes "find (\<lambda>t. Contains (Key t) ClusterTagKey) tags = Some tag"
    and "Key tag = ''kubernetes.io/cluster/mycluster-ab12c''"
  shows "GetClusterNameFromTags ClusterTagKey tags = ''mycluster'' \<and>
         GetInfraIDFromTags ClusterTagKey tags = ''ab12c''"
  using assms FindAllStringSubmatch_shape [of "''mycluster''" "''ab12c''"]
  by (simp add: GetClusterNameFromTags_find GetInfraIDFromTags_find parseClusterName_def
      parseInfraID_def)

theorem mycluster_round_trip_witness:
  "find (\<lambda>t. Contains (Key t) ''kubernetes.io/cluster/'')
     [\<lparr>Key = ''Name'', Value = ''web-1'', InstanceID = ''i-0abc''\<rparr>,
      \<lparr>Key = ''kubernetes.io/cluster/mycluster-ab12c'', Value = ''owned'', InstanceID = ''i-0abc''\<rparr>,
      \<lparr>Key = ''kubernetes.io/cluster/other-zz9zz'', Value = ''owned'', InstanceID = ''i-0abc''\<rparr>] =
     Some \<lparr>Key = ''kubernetes.io/cluster/mycluster-ab12c'', Value = ''owned'', InstanceID = ''i-0abc''\<rparr> \<and>
   GetClusterNameFromTags ''kubernetes.io/cluster/''
     [\<lparr>Key = ''Name'', Value = ''web-1'', InstanceID = ''i-0abc''\<rparr>,
      \<lparr>Key = ''kubernetes.io/cluster/mycluster-ab12c'', Value = ''owned'', InstanceID = ''i-0abc''\<rparr>,
      \<lparr>Key = ''kubernetes.io/cluster/other-zz9zz'', Value = ''owned'', InstanceID = ''i-0abc''\<rparr>] =
     ''mycluster'' \<and>
   GetInfraIDFromTags ''kubernetes.io/cluster/''
     [\<lparr>Key = ''Name'', Value = ''web-1'', InstanceID = ''i-0abc''\<rparr>,
      \<lparr>Key = ''kubernetes.io/cluster/mycluster-ab12c'', Value = ''owned'', InstanceID = ''i-0abc''\<rparr>,
      \<lparr>Key = ''kubernetes.io/cluster/other-zz9zz'', Value = ''owned'', InstanceID = ''i-0abc''\<rparr>] =
     ''ab12c''"
proof -
  have h: "find (\<lambda>t. Contains (Key t) ''kubernetes.io/cluster/'')
     [\<lparr>Key = ''Name'', Value = ''web-1'', InstanceID = ''i-0abc''\<rparr>,
      \<lparr>Key = ''kubernetes.io/cluster/mycluster-ab12c'', Value = ''owned'', InstanceID = ''i-0abc''\<rparr>,
      \<lparr>Key = ''kubernetes.io/cluster/other-zz9zz'', Value = ''owned'', InstanceID = ''i-0abc''\<rparr>] =
     Some \<lparr>Key = ''kubernetes.io/cluster/mycluster-ab12c'', Value = ''owned'', InstanceID = ''i-0abc''\<rparr>"
    by simp
  show ?thesis
    using h mycluster_round_trip [OF h] by simp
qed

text \<open>
  C9. For every tag list whose first tag with the marker in its key has a key that the
  extraction pattern does not match, \<^verbatim>\<open>GetInfraIDFromTags\<close> returns the empty string,
  while \<^verbatim>\<open>GetClusterNameFromTags\<close> and \<^verbatim>\<open>GetClusterIDFromTags\<close> return the sentinel
  \<^verbatim>\<open>UNKNOWN-CLUSTER\<close>. The name pattern and the infrastructure-ID pattern match the same
  keys (\<open>FindAllStringSubmatch_same_keys\<close>), so one hypothesis covers both.
\<close>
theorem infraID_asymmetry:
  assumes "find (\<lambda>t. Contains (Key t) ClusterTagKey) tags = Some tag"
    and "FindAllStringSubmatch clusterNameRegexp (Key tag) = None"
  shows "GetInfraIDFromTags ClusterTagKey tags = [] \<and>
         GetClusterNameFromTags ClusterTagKey tags = ''UNKNOWN-CLUSTER'' \<and>
         GetClusterIDFromTags ClusterTagKey tags = ''UNKNOWN-CLUSTER''"
proof -
  have "FindAllStringSubmatch infraIDRegexp (Key tag) = None"
    using assms(2) by (simp add: FindAllStringSubmatch_same_keys)
  with assms show ?thesis
    by (simp add: GetClusterNameFromTags_find GetInfraIDFromTags_find GetClusterIDFromTags_find
        parseClusterName_def parseInfraID_def parseClusterID_def
        unknownClusterNameCode_def unknownClusterIDCode_def)
qed

theorem infraID_asymmetry_witness:
  "find (\<lambda>t. Contains (Key t) ''kubernetes.io/cluster/'')
     [\<lparr>Key = ''Name'', Value = ''web-1'', InstanceID = ''i-0abc''\<rparr>,
      \<lparr>Key = ''kubernetes.io/cluster/mycluster'', Value = ''owned'', InstanceID = ''i-0abc''\<rparr>] =
     Some \<lparr>Key = ''kubernetes.io/cluster/mycluster'', Value = ''owned'', InstanceID = ''i-0abc''\<rparr> \<and>
   FindAllStringSubmatch clusterNameRegexp ''kubernetes.io/cluster/mycluster'' = None \<and>
   GetInfraIDFromTags ''kubernetes.io/cluster/''
     [\<lparr>Key = ''Name'', Value = ''web-1'', InstanceID = ''i-0abc''\<rparr>,
      \<lparr>Key = ''kubernetes.io/cluster/mycluster'', Value = ''owned'', InstanceID = ''i-0abc''\<rparr>] = [] \<and>
   GetClusterNameFromTags ''kubernetes.io/cluster/''
     [\<lparr>Key = ''Name'', Value = ''web-1'', InstanceID = ''i-0abc''\<rparr>,
      \<lparr>Key = ''kubernetes.io/cluster/mycluster'', Value = ''owned'', InstanceID = ''i-0abc''\<rparr>] =
     ''UNKNOWN-CLUSTER'' \<and>
   GetClusterIDFromTags ''kubernetes.io/cluster/''
     [\<lparr>Key = ''Name'', Value = ''web-1'', InstanceID = ''i-0abc''\<rparr>,
      \<lparr>Key = ''kubernetes.io/cluster/mycluster'', Value = ''owned'', InstanceID = ''i-0abc''\<rparr>] =
     ''UNKNOWN-CLUSTER''"
proof -
  have h1: "find (\<lambda>t. Contains (Key t) ''kubernetes.io/cluster/'')
     [\<lparr>Key = ''Name'', Value = ''web-1'', InstanceID = ''i-0abc''\<rparr>,
      \<lparr>Key = ''kubernetes.io/cluster/mycluster'', Value = ''owned'', InstanceID = ''i-0abc''\<rparr>] =
     Some \<lparr>Key = ''kubernetes.io/cluster/mycluster'', Value = ''owned'', InstanceID = ''i-0abc''\<rparr>"
    by simp
  have h2: "FindAllStringSubmatch clusterNameRegexp ''kubernetes.io/cluster/mycluster'' = None"
    by code_simp
  show ?thesis
    using h1 h2 infraID_asymmetry [OF h1] by simp
qed

section \<open>Provisioning of the executors\<close>

text \<open>
  The loop over a concatenation is the loop over the first part, then, unless that
  failed, over the second from the service the first part left.
\<close>

lemma createExecutors_loop_append:
  "createExecutors_loop N G (pre @ rest) a =
     (case createExecutors_loop N G pre a of
        (None, a') \<Rightarrow> createExecutors_loop N G rest a'
      | (Some err, a') \<Rightarrow> (Some err, a'))"
proof (induction pre arbitrary: a)
  case Nil
  then show ?case by simp
next
  case (Cons x pre)
  then show ?case
    by (cases "Provider x")
      (simp_all add: Let_def AddExecutor_def split: option.splits)
qed

lemma createExecutors_loop_nil_executor:
  assumes "Provider account = AWSProvider"
    and "N (NewAccount [] (Name account) (Provider account) (User account) (Key_cred account)) = None"
  shows "createExecutors_loop N G (account # rest) a =
     (Some (Errorf ''Cannot add a nil Executor''),
      a\<lparr>logger := logger a @
         [(InfoLevel, ''Creating Executor for AWS account'',
           [String ''account_name'' (Name account)]),
          (ErrorLevel, ''Cannot create an AWSEexecutor for account'',
           [String ''account_name'' (Name account),
            Error (Errorf ''Cannot add a nil Executor'')])]\<rparr>)"
  using assms by (simp add: AddExecutor_def Info_def Error_log_def)

lemma createExecutors_loop_same_registry:
  assumes "executors a = executors b"
  shows "fst (createExecutors_loop N G accounts a) = fst (createExecutors_loop N G accounts b) \<and>
         executors (snd (createExecutors_loop N G accounts a)) =
         executors (snd (createExecutors_loop N G accounts b))"
  using assms
proof (induction accounts arbitrary: a b)
  case Nil
  then show ?case by simp
next
  case (Cons x accounts)
  show ?case
  proof (cases "Provider x")
    case AWSProvider
    show ?thesis
    proof (cases "N (NewAccount [] (Name x) (Provider x) (User x) (Key_cred x))")
      case None
      with AWSProvider Cons.prems show ?thesis
        by (simp add: AddExecutor_def Info_def Error_log_def)
    next
      case (Some e)
      with AWSProvider Cons.prems show ?thesis
        using Cons.IH [of "(Info ''Creating Executor for AWS account''
                      [String ''account_name'' (Name x)] a)\<lparr>executors := (executors a)(G e \<mapsto> e)\<rparr>"
                "(Info ''Creating Executor for AWS account''
                      [String ''account_name'' (Name x)] b)\<lparr>executors := (executors b)(G e \<mapsto> e)\<rparr>"]
        by (simp add: AddExecutor_def Info_def)
    qed
  next
    case GCPProvider
    with Cons.prems show ?thesis
      using Cons.IH [of "Warn ''Failed to create Executor for GCP account''
               [String ''account'' (Name x), String ''reason'' ''not implemented''] a"
           "Warn ''Failed to create Executor for GCP account''
               [String ''account'' (Name x), String ''reason'' ''not implemented''] b"]
      by (simp add: Warn_def)
  next
    case AzureProvider
    with Cons.prems show ?thesis
      using Cons.IH [of "Warn ''Failed to create Executor for Azure account''
               [String ''account'' (Name x), String ''reason'' ''not implemented''] a"
           "Warn ''Failed to create Executor for Azure account''
               [String ''account'' (Name x), String ''reason'' ''not implemented''] b"]
      by (simp add: Warn_def)
  next
    case UnknownProvider
    with Cons.prems show ?thesis
      using Cons.IH [of a b] by simp
  qed
qed


lemma createExecutors_loop_filter:
  "fst (createExecutors_loop N G accounts a) =
     fst (createExecutors_loop N G
            (filter (\<lambda>x. Provider x \<noteq> GCPProvider \<and> Provider x \<noteq> AzureProvider) accounts) a) \<and>
   executors (snd (createExecutors_loop N G accounts a)) =
     executors (snd (createExecutors_loop N G
            (filter (\<lambda>x. Provider x \<noteq> GCPProvider \<and> Provider x \<noteq> AzureProvider) accounts) a))"
proof (induction accounts arbitrary: a)
  case Nil
  then show ?case by simp
next
  case (Cons x accounts)
  show ?case
  proof (cases "Provider x")
    case AWSProvider
    then show ?thesis
      using Cons.IH
      by (cases "N (NewAccount [] (Name x) (Provider x) (User x) (Key_cred x))")
        (simp_all add: AddExecutor_def Let_def)
  next
    case GCPProvider
    then show ?thesis
      using Cons.IH [of a]
        createExecutors_loop_same_registry [of "Warn ''Failed to create Executor for GCP account''
               [String ''account'' (Name x), String ''reason'' ''not implemented''] a" a N G accounts]
      by (simp add: Warn_def)
  next
    case AzureProvider
    then show ?thesis
      using Cons.IH [of a]
        createExecutors_loop_same_registry [of "Warn ''Failed to create Executor for Azure account''
               [String ''account'' (Name x), String ''reason'' ''not implemented''] a" a N G accounts]
      by (simp add: Warn_def)
  next
    case UnknownProvider
    then show ?thesis
      using Cons.IH by simp
  qed
qed

text \<open>
  C6. \<^verbatim>\<open>AddExecutor(nil)\<close> fails with the error \<^verbatim>\<open>Cannot add a nil Executor\<close> and leaves
  the service, and so the executors map, as it was. For every non-nil executor
  \<^verbatim>\<open>AddExecutor\<close> succeeds, and the service afterwards differs from the one before only
  in the entry of the executors map under the executor's \<^verbatim>\<open>GetAccountName()\<close>, which
  now holds that executor.
\<close>
theorem AddExecutor_contract:
  "AddExecutor GetAccountName None a = (Some (Errorf ''Cannot add a nil Executor''), a) \<and>
   AddExecutor GetAccountName (Some e) a =
     (None, a\<lparr>executors := (executors a)(GetAccountName e \<mapsto> e)\<rparr>)"
  by (simp add: AddExecutor_def)

text \<open>
  C5. For the account list \<^verbatim>\<open>[{AWS, "acct-a"}, {GCP, "acct-b"}, {AWS, "acct-a"}]\<close> and a
  registry that starts empty, \<^verbatim>\<open>createExecutors\<close> succeeds and the registry then has
  exactly one entry, under \<^verbatim>\<open>acct-a\<close>, bound to the executor constructed from the second
  AWS descriptor. The two constructions are taken to give executors that report the name
  \<^verbatim>\<open>acct-a\<close>; the credentials of the three descriptors are arbitrary.
\<close>
theorem duplicate_account_last_wins:
  assumes "executors a = Map.empty"
    and "NewAWSExecutor (NewAccount [] ''acct-a'' AWSProvider u1 k1) = Some e1"
    and "NewAWSExecutor (NewAccount [] ''acct-a'' AWSProvider u2 k2) = Some e2"
    and "GetAccountName e1 = ''acct-a''"
    and "GetAccountName e2 = ''acct-a''"
  shows "fst (createExecutors NewAWSExecutor GetAccountName
           (Inr [\<lparr>Provider = AWSProvider, Name = ''acct-a'', User = u1, Key_cred = k1\<rparr>,
                 \<lparr>Provider = GCPProvider, Name = ''acct-b'', User = u3, Key_cred = k3\<rparr>,
                 \<lparr>Provider = AWSProvider, Name = ''acct-a'', User = u2, Key_cred = k2\<rparr>]) a) = None \<and>
         executors (snd (createExecutors NewAWSExecutor GetAccountName
           (Inr [\<lparr>Provider = AWSProvider, Name = ''acct-a'', User = u1, Key_cred = k1\<rparr>,
                 \<lparr>Provider = GCPProvider, Name = ''acct-b'', User = u3, Key_cred = k3\<rparr>,
                 \<lparr>Provider = AWSProvider, Name = ''acct-a'', User = u2, Key_cred = k2\<rparr>]) a)) =
           [''acct-a'' \<mapsto> e2] \<and>
         dom (executors (snd (createExecutors NewAWSExecutor GetAccountName
           (Inr [\<lparr>Provider = AWSProvider, Name = ''acct-a'', User = u1, Key_cred = k1\<rparr>,
                 \<lparr>Provider = GCPProvider, Name = ''acct-b'', User = u3, Key_cred = k3\<rparr>,
                 \<lparr>Provider = AWSProvider, Name = ''acct-a'', User = u2, Key_cred = k2\<rparr>]) a))) =
           {''acct-a''}"
  using assms
  by (simp add: createExecutors_def readCloudProviderAccounts_def AddExecutor_def Info_def
      Warn_def)

theorem duplicate_account_last_wins_witness:
  "executors (NewAgentService :: Account AgentService) = Map.empty \<and>
   fst (createExecutors Some (\<lambda>x. case x of NewAccount i n p u k \<Rightarrow> n)
           (Inr [\<lparr>Provider = AWSProvider, Name = ''acct-a'', User = ''user-1'', Key_cred = ''key-1''\<rparr>,
                 \<lparr>Provider = GCPProvider, Name = ''acct-b'', User = ''user-3'', Key_cred = ''key-3''\<rparr>,
                 \<lparr>Provider = AWSProvider, Name = ''acct-a'', User = ''user-2'', Key_cred = ''key-2''\<rparr>])
           NewAgentService) = None \<and>
   executors (snd (createExecutors Some (\<lambda>x. case x of NewAccount i n p u k \<Rightarrow> n)
           (Inr [\<lparr>Provider = AWSProvider, Name = ''acct-a'', User = ''user-1'', Key_cred = ''key-1''\<rparr>,
                 \<lparr>Provider = GCPProvider, Name = ''acct-b'', User = ''user-3'', Key_cred = ''key-3''\<rparr>,
                 \<lparr>Provider = AWSProvider, Name = ''acct-a'', User = ''user-2'', Key_cred = ''key-2''\<rparr>])
           NewAgentService)) =
     [''acct-a'' \<mapsto> NewAccount [] ''acct-a'' AWSProvider ''user-2'' ''key-2'']"
proof -
  have h: "executors (NewAgentService :: Account AgentService) = Map.empty"
    by (simp add: NewAgentService_def)
  show ?thesis
    using h duplicate_account_last_wins [of "NewAgentService :: Account AgentService" Some
        "''user-1''" "''key-1''" "NewAccount [] ''acct-a'' AWSProvider ''user-1'' ''key-1''"
        "''user-2''" "''key-2''" "NewAccount [] ''acct-a'' AWSProvider ''user-2'' ''key-2''"
        "\<lambda>x. case x of NewAccount i n p u k \<Rightarrow> n" "''user-3''" "''key-3''", OF h]
    by simp
qed

text \<open>
  C7. \<^verbatim>\<open>createExecutors\<close> is fail-fast. If reading the account list fails, it returns
  that error and the service is unchanged. If the accounts before some AWS account were
  processed without error and the construction for that AWS account gives nil, the call
  returns the error of \<^verbatim>\<open>AddExecutor\<close> with the service as it was after those earlier
  accounts, plus the two log entries for the failing account: the result does not depend
  on the accounts after it.
\<close>
theorem createExecutors_fail_fast:
  "createExecutors NewAWSExecutor GetAccountName (Inl err) a = (Some err, a) \<and>
   (createExecutors_loop NewAWSExecutor GetAccountName pre a = (None, a') \<and>
    Provider account = AWSProvider \<and>
    NewAWSExecutor
      (NewAccount [] (Name account) (Provider account) (User account) (Key_cred account)) = None
    \<longrightarrow>
    createExecutors NewAWSExecutor GetAccountName (Inr (pre @ account # rest)) a =
      (Some (Errorf ''Cannot add a nil Executor''),
       a'\<lparr>logger := logger a' @
          [(InfoLevel, ''Creating Executor for AWS account'',
            [String ''account_name'' (Name account)]),
           (ErrorLevel, ''Cannot create an AWSEexecutor for account'',
            [String ''account_name'' (Name account),
             Error (Errorf ''Cannot add a nil Executor'')])]\<rparr>))"
proof -
  have "createExecutors NewAWSExecutor GetAccountName (Inl err) a = (Some err, a)"
    by (simp add: createExecutors_def readCloudProviderAccounts_def)
  moreover have "createExecutors NewAWSExecutor GetAccountName (Inr (pre @ account # rest)) a =
      (Some (Errorf ''Cannot add a nil Executor''),
       a'\<lparr>logger := logger a' @
          [(InfoLevel, ''Creating Executor for AWS account'',
            [String ''account_name'' (Name account)]),
           (ErrorLevel, ''Cannot create an AWSEexecutor for account'',
            [String ''account_name'' (Name account),
             Error (Errorf ''Cannot add a nil Executor'')])]\<rparr>)"
    if "createExecutors_loop NewAWSExecutor GetAccountName pre a = (None, a')"
      and "Provider account = AWSProvider"
      and "NewAWSExecutor
             (NewAccount [] (Name account) (Provider account) (User account) (Key_cred account)) =
           None"
    using that(1)
      createExecutors_loop_nil_executor [of account NewAWSExecutor GetAccountName rest a',
        OF that(2,3)]
    by (simp add: createExecutors_def readCloudProviderAccounts_def createExecutors_loop_append)
  ultimately show ?thesis by blast
qed

theorem createExecutors_fail_fast_witness:
  "createExecutors_loop
     (\<lambda>x. case x of NewAccount i n p u k \<Rightarrow> if n = ''acct-x'' then None else Some x)
     (\<lambda>x. case x of NewAccount i n p u k \<Rightarrow> n)
     [\<lparr>Provider = AWSProvider, Name = ''acct-a'', User = ''user-1'', Key_cred = ''key-1''\<rparr>]
     NewAgentService =
     (None,
      \<lparr>executors = [''acct-a'' \<mapsto> NewAccount [] ''acct-a'' AWSProvider ''user-1'' ''key-1''],
       logger = [(InfoLevel, ''Creating Executor for AWS account'',
                  [String ''account_name'' ''acct-a''])]\<rparr>) \<and>
   (case NewAccount [] ''acct-x'' AWSProvider ''user-2'' ''key-2'' of
      NewAccount i n p u k \<Rightarrow>
        if n = ''acct-x'' then None
        else Some (NewAccount [] ''acct-x'' AWSProvider ''user-2'' ''key-2'')) = None \<and>
   createExecutors
     (\<lambda>x. case x of NewAccount i n p u k \<Rightarrow> if n = ''acct-x'' then None else Some x)
     (\<lambda>x. case x of NewAccount i n p u k \<Rightarrow> n)
     (Inr [\<lparr>Provider = AWSProvider, Name = ''acct-a'', User = ''user-1'', Key_cred = ''key-1''\<rparr>,
           \<lparr>Provider = AWSProvider, Name = ''acct-x'', User = ''user-2'', Key_cred = ''key-2''\<rparr>,
           \<lparr>Provider = AWSProvider, Name = ''acct-c'', User = ''user-3'', Key_cred = ''key-3''\<rparr>])
     NewAgentService =
     (Some (Errorf ''Cannot add a nil Executor''),
      \<lparr>executors = [''acct-a'' \<mapsto> NewAccount [] ''acct-a'' AWSProvider ''user-1'' ''key-1''],
       logger = [(InfoLevel, ''Creating Executor for AWS account'',
                  [String ''account_name'' ''acct-a'']),
                 (InfoLevel, ''Creating Executor for AWS account'',
                  [String ''account_name'' ''acct-x'']),
                 (ErrorLevel, ''Cannot create an AWSEexecutor for account'',
                  [String ''account_name'' ''acct-x'',
                   Error (Errorf ''Cannot add a nil Executor'')])]\<rparr>)"
proof -
  have h: "createExecutors_loop
     (\<lambda>x. case x of NewAccount i n p u k \<Rightarrow> if n = ''acct-x'' then None else Some x)
     (\<lambda>x. case x of NewAccount i n p u k \<Rightarrow> n)
     [\<lparr>Provider = AWSProvider, Name = ''acct-a'', User = ''user-1'', Key_cred = ''key-1''\<rparr>]
     NewAgentService =
     (None,
      \<lparr>executors = [''acct-a'' \<mapsto> NewAccount [] ''acct-a'' AWSProvider ''user-1'' ''key-1''],
       logger = [(InfoLevel, ''Creating Executor for AWS account'',
                  [String ''account_name'' ''acct-a''])]\<rparr>)"
    by (simp add: NewAgentService_def AddExecutor_def Info_def)
  show ?thesis
    using h createExecutors_fail_fast
      [of "\<lambda>x. case x of NewAccount i n p u k \<Rightarrow> if n = ''acct-x'' then None else Some x"
          "\<lambda>x. case x of NewAccount i n p u k \<Rightarrow> n"
          "Errorf ''unused''" NewAgentService
          "[\<lparr>Provider = AWSProvider, Name = ''acct-a'', User = ''user-1'', Key_cred = ''key-1''\<rparr>]"
          "\<lparr>executors = [''acct-a'' \<mapsto> NewAccount [] ''acct-a'' AWSProvider ''user-1'' ''key-1''],
            logger = [(InfoLevel, ''Creating Executor for AWS account'',
                       [String ''account_name'' ''acct-a''])]\<rparr>"
          "\<lparr>Provider = AWSProvider, Name = ''acct-x'', User = ''user-2'', Key_cred = ''key-2''\<rparr>"
          "[\<lparr>Provider = AWSProvider, Name = ''acct-c'', User = ''user-3'', Key_cred = ''key-3''\<rparr>]"]
    by simp
qed

text \<open>
  C8. A GCP or Azure account only appends a warning to the log, and the loop goes on with
  the accounts after it. For every account list, the returned error and the resulting
  executors map are those of the same list with the GCP and Azure accounts removed: these
  accounts cause no failure and no entry of the registry.
\<close>
theorem unimplemented_providers_skipped:
  "(Provider account = GCPProvider \<or> Provider account = AzureProvider \<longrightarrow>
      createExecutors_loop NewAWSExecutor GetAccountName (account # rest) a =
        createExecutors_loop NewAWSExecutor GetAccountName rest
          (a\<lparr>logger := logger a @
             [(WarnLevel,
               if Provider account = GCPProvider
               then ''Failed to create Executor for GCP account''
               else ''Failed to create Executor for Azure account'',
               [String ''account'' (Name account), String ''reason'' ''not implemented''])]\<rparr>)) \<and>
   fst (createExecutors NewAWSExecutor GetAccountName (Inr accounts) a) =
     fst (createExecutors NewAWSExecutor GetAccountName
            (Inr (filter (\<lambda>x. Provider x \<noteq> GCPProvider \<and> Provider x \<noteq> AzureProvider)
                    accounts)) a) \<and>
   executors (snd (createExecutors NewAWSExecutor GetAccountName (Inr accounts) a)) =
     executors (snd (createExecutors NewAWSExecutor GetAccountName
            (Inr (filter (\<lambda>x. Provider x \<noteq> GCPProvider \<and> Provider x \<noteq> AzureProvider)
                    accounts)) a))"
  using createExecutors_loop_filter [of NewAWSExecutor GetAccountName accounts a]
  by (auto simp: createExecutors_def readCloudProviderAccounts_def Warn_def)


theorem unimplemented_providers_skipped_witness:
  "createExecutors_loop Some (\<lambda>x. case x of NewAccount i n p u k \<Rightarrow> n)
     [\<lparr>Provider = GCPProvider, Name = ''acct-b'', User = ''user-2'', Key_cred = ''key-2''\<rparr>,
      \<lparr>Provider = AWSProvider, Name = ''acct-a'', User = ''user-1'', Key_cred = ''key-1''\<rparr>]
     NewAgentService =
   createExecutors_loop Some (\<lambda>x. case x of NewAccount i n p u k \<Rightarrow> n)
     [\<lparr>Provider = AWSProvider, Name = ''acct-a'', User = ''user-1'', Key_cred = ''key-1''\<rparr>]
     (NewAgentService\<lparr>logger :=
        [(WarnLevel, ''Failed to create Executor for GCP account'',
          [String ''account'' ''acct-b'', String ''reason'' ''not implemented''])]\<rparr>) \<and>
   fst (createExecutors Some (\<lambda>x. case x of NewAccount i n p u k \<Rightarrow> n)
     (Inr [\<lparr>Provider = GCPProvider, Name = ''acct-b'', User = ''user-2'', Key_cred = ''key-2''\<rparr>,
           \<lparr>Provider = AWSProvider, Name = ''acct-a'', User = ''user-1'', Key_cred = ''key-1''\<rparr>,
           \<lparr>Provider = AzureProvider, Name = ''acct-z'', User = ''user-3'', Key_cred = ''key-3''\<rparr>])
     NewAgentService) = None \<and>
   executors (snd (createExecutors Some (\<lambda>x. case x of NewAccount i n p u k \<Rightarrow> n)
     (Inr [\<lparr>Provider = GCPProvider, Name = ''acct-b'', User = ''user-2'', Key_cred = ''key-2''\<rparr>,
           \<lparr>Provider = AWSProvider, Name = ''acct-a'', User = ''user-1'', Key_cred = ''key-1''\<rparr>,
           \<lparr>Provider = AzureProvider, Name = ''acct-z'', User = ''user-3'', Key_cred = ''key-3''\<rparr>])
     NewAgentService)) =
     [''acct-a'' \<mapsto> NewAccount [] ''acct-a'' AWSProvider ''user-1'' ''key-1'']"
  using unimplemented_providers_skipped
      [of "\<lparr>Provider = GCPProvider, Name = ''acct-b'', User = ''user-2'', Key_cred = ''key-2''\<rparr>"
          Some "\<lambda>x. case x of NewAccount i n p u k \<Rightarrow> n"
          "[\<lparr>Provider = AWSProvider, Name = ''acct-a'', User = ''user-1'', Key_cred = ''key-1''\<rparr>]"
          NewAgentService
          "[\<lparr>Provider = GCPProvider, Name = ''acct-b'', User = ''user-2'', Key_cred = ''key-2''\<rparr>,
            \<lparr>Provider = AWSProvider, Name = ''acct-a'', User = ''user-1'', Key_cred = ''key-1''\<rparr>,
            \<lparr>Provider = AzureProvider, Name = ''acct-z'', User = ''user-3'', Key_cred = ''key-3''\<rparr>]"]
  by (simp add: createExecutors_def readCloudProviderAccounts_def NewAgentService_def
      AddExecutor_def Info_def Warn_def)

end
